theory Spec2Isabelle
  imports Complex_Main
begin

section \<open>Behavior Rubric App: a shallow embedding of the single-file React component\<close>

text \<open>
  The source is \<^verbatim>\<open>src/behavior_rubric_app_react_single_file.jsx\<close>. Every handler of the
  component is a function from the React state (students, settings, date, studentId,
  entries) to the state React holds once the queued updates have been applied.

  Conventions of the embedding:
  \<^item> a JavaScript number that the code produces is an integer or \<open>NaN\<close>
    (\<open>parseInt\<close>, \<open>Math.min\<close>, \<open>Math.max\<close>, \<open>+\<close> on integers), so a number is a
    \<open>jsnum\<close>: \<open>Num n\<close> with \<open>n\<close> an unbounded integer, or \<open>NaN\<close>. Integers are exact
    in a double up to \<open>2^53\<close>; the scores, maxima and totals of the application stay far
    below that. The one place where the code leaves the integers, the percentage
    \<open>Math.round((total / max) * 100)\<close>, is modelled with correctly rounded binary64
    division and multiplication.
  \<^item> a JavaScript object used as a dictionary is a map; \<open>null\<close> is \<open>None\<close> of an option
    type, and a property that is absent (\<open>undefined\<close>) is \<open>None\<close> of the map. A matrix row
    therefore has type \<open>string \<rightharpoonup> int option\<close>: \<open>None\<close> is an absent cell,
    \<open>Some None\<close> a cell holding \<open>null\<close> ("unset"), \<open>Some (Some n)\<close> a scored cell.
    A map holds the own properties of the object. A lookup \<open>o[k]\<close> or a test
    \<open>k in o\<close> of the code also finds what the object inherits from
    \<open>Object.prototype\<close> (\<open>toString\<close>, \<open>constructor\<close>, ...); for every other name the
    two agree. The functions that look up period and category ids are therefore the
    code's for settings whose ids are none of these names (\<open>plainIds\<close>), and those
    that look up the record of the key are the code's when the key is none of them;
    both are hypotheses of the theorems about these functions. Every id that \<open>uid()\<close>
    produces is such.
  \<^item> strings are ASCII \<open>char list\<close>s.
\<close>

subsection \<open>Numbers, \<open>clamp\<close> and \<open>parseInt\<close>\<close>

datatype jsnum = NaN | Num int

text \<open>\<open>Math.min\<close> and \<open>Math.max\<close> return \<open>NaN\<close> as soon as one argument is \<open>NaN\<close>.\<close>

fun Math_min :: "jsnum \<Rightarrow> jsnum \<Rightarrow> jsnum" where
  "Math_min (Num a) (Num b) = Num (min a b)"
| "Math_min _ _ = NaN"

fun Math_max :: "jsnum \<Rightarrow> jsnum \<Rightarrow> jsnum" where
  "Math_max (Num a) (Num b) = Num (max a b)"
| "Math_max _ _ = NaN"

text \<open>\<^verbatim>\<open>const clamp = (n, min, max) => Math.max(min, Math.min(max, n));\<close>\<close>

definition clamp :: "jsnum \<Rightarrow> jsnum \<Rightarrow> jsnum \<Rightarrow> jsnum" where
  "clamp n lo hi = Math_max lo (Math_min hi n)"

text \<open>
  \<open>parseInt(s, 10)\<close>: skip leading white space, read an optional sign, then the longest
  run of decimal digits; no digit gives \<open>NaN\<close>. Whatever follows the digits is ignored.
\<close>

definition isWhiteSpace :: "char \<Rightarrow> bool" where
  "isWhiteSpace c = (of_char c \<in> {9, 10, 11, 12, 13, 32 :: nat})"

definition isDigit :: "char \<Rightarrow> bool" where
  "isDigit c = (48 \<le> (of_char c :: nat) \<and> (of_char c :: nat) \<le> 57)"

definition digitValue :: "char \<Rightarrow> int" where
  "digitValue c = int (of_char c) - 48"

definition digitsValue :: "string \<Rightarrow> int" where
  "digitsValue z = foldl (\<lambda>a c. 10 * a + digitValue c) 0 z"

definition parseInt :: "string \<Rightarrow> jsnum" where
  "parseInt s =
     (let t = dropWhile isWhiteSpace s;
          neg = (case t of c # _ \<Rightarrow> c = CHR ''-'' | [] \<Rightarrow> False);
          u = (case t of c # r \<Rightarrow> if c = CHR ''-'' \<or> c = CHR ''+'' then r else t | [] \<Rightarrow> t);
          z = takeWhile isDigit u
      in if z = [] then NaN else Num ((if neg then - 1 else 1) * digitsValue z))"

subsection \<open>Data model\<close>

text \<open>A category, a period or a student: \<^verbatim>\<open>{ id, name }\<close>.\<close>

record item =
  item_id :: string
  item_name :: string

text \<open>
  The settings object, with the fields of \<^verbatim>\<open>DEFAULT_SETTINGS\<close>. The keys of
  \<open>scaleLabels\<close> are property names (\<open>''0''\<close>, \<open>''1''\<close>, ...).
\<close>

record settings =
  scaleMax :: jsnum
  scaleLabels :: "(string \<times> string) list"
  categories :: "item list"
  periods :: "item list"
  goalPoints :: jsnum

type_synonym row = "string \<rightharpoonup> int option"
type_synonym matrix = "string \<rightharpoonup> row"

text \<open>
  A record of \<open>entries\<close>. Every field but \<open>matrix\<close> is optional: the settings import
  builds \<^verbatim>\<open>{ ...rec, matrix }\<close>, which has only a matrix when \<open>rec\<close> is undefined.
\<close>

record rubric_record =
  rec_id :: "string option"
  rec_studentId :: "string option"
  rec_date :: "string option"
  matrix :: matrix
  periodComments :: "(string \<rightharpoonup> string) option"
  dailyNote :: "string option"
  staff :: "string option"

text \<open>
  The React state of \<open>BehaviorRubricApp\<close>. The settings cell holds whatever was last
  passed to \<open>setSettings\<close>; its type is a parameter, \<open>settings\<close> for the handlers that read
  its fields and a JSON value for the import.
\<close>

record 's app_state =
  students :: "item list"
  settings :: 's
  date :: string
  studentId :: "string option"
  entries :: "string \<rightharpoonup> rubric_record"

text \<open>\<^verbatim>\<open>const key = `${date}__${studentId}`;\<close> An undefined id prints as \<open>undefined\<close>.\<close>

definition key :: "'s app_state \<Rightarrow> string" where
  "key st = date st @ ''__'' @ (case studentId st of None \<Rightarrow> ''undefined'' | Some i \<Rightarrow> i)"

subsection \<open>\<open>setScore\<close>\<close>

text \<open>
  \<^verbatim>\<open>const v = val === "" ? null : clamp(parseInt(val, 10), 0, settings.scaleMax);\<close>
  and the stored cell is \<^verbatim>\<open>Number.isNaN(v) ? null : v\<close>.
\<close>

definition scoreValue :: "jsnum \<Rightarrow> string \<Rightarrow> int option" where
  "scoreValue mx val =
     (if val = [] then None
      else (case clamp (parseInt val) (Num 0) mx of NaN \<Rightarrow> None | Num n \<Rightarrow> Some n))"

definition rowOf :: "matrix \<Rightarrow> string \<Rightarrow> row" where
  "rowOf m p = (case m p of None \<Rightarrow> Map.empty | Some r \<Rightarrow> r)"

text \<open>
  The updater reads \<^verbatim>\<open>prev[key].matrix\<close>: with no record under the key it throws a
  TypeError, the result \<open>None\<close>. Spreading an absent row gives the empty object.
\<close>

definition setScore :: "string \<Rightarrow> string \<Rightarrow> string \<Rightarrow> settings app_state \<Rightarrow> settings app_state option" where
  "setScore periodId categoryId val st =
     (case entries st (key st) of
        None \<Rightarrow> None
      | Some r \<Rightarrow>
          Some (st\<lparr>entries := (entries st)(key st \<mapsto>
            r\<lparr>matrix := (matrix r)(periodId \<mapsto>
              (rowOf (matrix r) periodId)(categoryId \<mapsto> scoreValue (scaleMax (settings st)) val))\<rparr>)\<rparr>))"

text \<open>The cell of a record the code reads with \<^verbatim>\<open>record.matrix?.[p.id]?.[c.id]\<close>.\<close>

definition cell :: "rubric_record \<Rightarrow> string \<Rightarrow> string \<Rightarrow> int option option" where
  "cell r p c = (case matrix r p of None \<Rightarrow> None | Some row \<Rightarrow> row c)"

subsection \<open>Property names inherited from \<open>Object.prototype\<close>\<close>

text \<open>
  The string-named properties of \<open>Object.prototype\<close>, which every object literal of the
  code inherits.
\<close>

definition objectPrototypeNames :: "string list" where
  "objectPrototypeNames =
     [''constructor'', ''hasOwnProperty'', ''isPrototypeOf'', ''propertyIsEnumerable'',
      ''toLocaleString'', ''toString'', ''valueOf'', ''__proto__'',
      ''__defineGetter__'', ''__defineSetter__'', ''__lookupGetter__'', ''__lookupSetter__'']"

definition inheritedName :: "string \<Rightarrow> bool" where
  "inheritedName k = (k \<in> set objectPrototypeNames)"

definition plainIds :: "settings \<Rightarrow> bool" where
  "plainIds s =
     (list_all (\<lambda>x. \<not> inheritedName (item_id x)) (periods s) \<and>
      list_all (\<lambda>x. \<not> inheritedName (item_id x)) (categories s))"

text \<open>
  \<^verbatim>\<open>const uid = () => Math.random().toString(36).slice(2, 9);\<close> yields at most seven
  characters, each a digit or a lower-case letter.
\<close>

definition uidShaped :: "string \<Rightarrow> bool" where
  "uidShaped k =
     (length k \<le> 7 \<and>
      list_all (\<lambda>c. isDigit c \<or> (97 \<le> (of_char c :: nat) \<and> (of_char c :: nat) \<le> 122)) k)"

subsection \<open>Reconciliation of the active record with the settings\<close>

text \<open>
  The effect that runs when \<open>settings.periods\<close>, \<open>settings.categories\<close> or the key
  change:
  \<^verbatim>\<open>
  const nextMatrix = { ...rec.matrix };
  settings.periods.forEach((p) => {
    if (!nextMatrix[p.id]) nextMatrix[p.id] = {};
    settings.categories.forEach((c) => {
      if (!(c.id in nextMatrix[p.id])) nextMatrix[p.id][c.id] = null;
    });
  });
  return { ...prev, [key]: { ...rec, matrix: nextMatrix } };
  \<close>
  The two loops are recursions over the lists; with no record under the key the updater
  returns \<open>prev\<close>. The tests \<open>!nextMatrix[p.id]\<close> and \<open>c.id in nextMatrix[p.id]\<close> are
  tests of own properties here, which is what they are under \<open>plainIds\<close>; the lookup
  \<open>prev[key]\<close> is one of an own property, which is what it is for a key that is no
  inherited name.
\<close>

fun ensureCategories :: "item list \<Rightarrow> row \<Rightarrow> row" where
  "ensureCategories [] row = row"
| "ensureCategories (c # cs) row =
     ensureCategories cs (if row (item_id c) = None then row(item_id c \<mapsto> None) else row)"

fun ensurePeriods :: "item list \<Rightarrow> item list \<Rightarrow> matrix \<Rightarrow> matrix" where
  "ensurePeriods cats [] m = m"
| "ensurePeriods cats (p # ps) m =
     ensurePeriods cats ps (m(item_id p \<mapsto> ensureCategories cats (rowOf m (item_id p))))"

definition reconcileRecord :: "settings \<Rightarrow> rubric_record \<Rightarrow> rubric_record" where
  "reconcileRecord s r = r\<lparr>matrix := ensurePeriods (categories s) (periods s) (matrix r)\<rparr>"

definition reconcile :: "settings app_state \<Rightarrow> settings app_state" where
  "reconcile st =
     (case entries st (key st) of
        None \<Rightarrow> st
      | Some r \<Rightarrow> st\<lparr>entries := (entries st)(key st \<mapsto> reconcileRecord (settings st) r)\<rparr>)"

subsection \<open>A running example\<close>

text \<open>
  Two periods and two categories on the 0..3 scale, one student, one record whose
  scores are p1/c1 = 3, p1/c2 = 2, p2/c1 unset, p2/c2 = 1.
\<close>

definition example_settings :: settings where
  "example_settings =
     \<lparr>scaleMax = Num 3,
      scaleLabels = [(''0'', ''Not Met''), (''1'', ''Emerging''), (''2'', ''Meets''), (''3'', ''Exceeds'')],
      categories = [\<lparr>item_id = ''c1'', item_name = ''Be Safe''\<rparr>, \<lparr>item_id = ''c2'', item_name = ''On Task''\<rparr>],
      periods = [\<lparr>item_id = ''p1'', item_name = ''Arrival''\<rparr>, \<lparr>item_id = ''p2'', item_name = ''Dismissal''\<rparr>],
      goalPoints = Num 24\<rparr>"

definition example_matrix :: matrix where
  "example_matrix =
     [''p1'' \<mapsto> [''c1'' \<mapsto> Some 3, ''c2'' \<mapsto> Some 2],
      ''p2'' \<mapsto> [''c1'' \<mapsto> None, ''c2'' \<mapsto> Some 1]]"

definition example_record :: rubric_record where
  "example_record =
     \<lparr>rec_id = Some ''r1'', rec_studentId = Some ''s1'', rec_date = Some ''2024-05-01'',
      matrix = example_matrix, periodComments = Some Map.empty, dailyNote = Some [], staff = Some []\<rparr>"

definition example_state :: "settings app_state" where
  "example_state =
     \<lparr>students = [\<lparr>item_id = ''s1'', item_name = ''Seth Example''\<rparr>],
      settings = example_settings, date = ''2024-05-01'', studentId = Some ''s1'',
      entries = [''2024-05-01__s1'' \<mapsto> example_record]\<rparr>"

definition example_settings_added :: settings where
  "example_settings_added =
     example_settings\<lparr>categories := categories example_settings @
       [\<lparr>item_id = ''c3'', item_name = ''New Category''\<rparr>]\<rparr>"

subsection \<open>Binary64 arithmetic for the percentage\<close>

text \<open>
  \<open>total / max\<close> and \<open>\<dots> * 100\<close> are IEEE 754 binary64 operations: the exact
  result rounded to the nearest double, ties to the even significand. \<open>fl\<close> is that
  rounding on the rationals, for the normal range (53-bit significand; no overflow or
  subnormal arises for the integers below \<open>2^53\<close> that the application divides).
  \<open>binexp x\<close> is the binary exponent \<open>\<lfloor>log\<^sub>2 \<bar>x\<bar>\<rfloor>\<close>, computed from the bit lengths
  of numerator and denominator.
\<close>

definition pow2 :: "int \<Rightarrow> rat" where
  "pow2 e = (if 0 \<le> e then 2 ^ nat e else 1 / 2 ^ nat (- e))"

function bitLength :: "int \<Rightarrow> int" where
  "bitLength n = (if n \<le> 0 then 0 else 1 + bitLength (n div 2))"
  by pat_completeness auto
termination
  by (relation "measure nat") auto

declare bitLength.simps [simp del]

definition binexp :: "rat \<Rightarrow> int" where
  "binexp x =
     (let (p, q) = quotient_of \<bar>x\<bar>;
          k = bitLength p - bitLength q
      in if pow2 k \<le> \<bar>x\<bar> then k else k - 1)"

definition roundEven :: "rat \<Rightarrow> int" where
  "roundEven y =
     (let f = \<lfloor>y\<rfloor>; d = y - of_int f
      in if d < 1 / 2 then f else if 1 / 2 < d then f + 1 else if even f then f else f + 1)"

definition fl :: "rat \<Rightarrow> rat" where
  "fl x = (if x = 0 then 0
           else let u = pow2 (binexp x - 52) in of_int (roundEven (x / u)) * u)"

text \<open>\<open>Math.round\<close>: the nearest integer, a tie going to the larger one.\<close>

definition Math_round :: "rat \<Rightarrow> int" where
  "Math_round x = \<lfloor>x + 1 / 2\<rfloor>"

text \<open>\<^verbatim>\<open>percent: max > 0 ? Math.round((total / max) * 100) : 0\<close>; \<open>NaN > 0\<close> is false.\<close>

definition percentOf :: "int \<Rightarrow> jsnum \<Rightarrow> int" where
  "percentOf tot mx =
     (case mx of
        NaN \<Rightarrow> 0
      | Num m \<Rightarrow> if 0 < m then Math_round (fl (fl (of_int tot / of_int m) * 100)) else 0)"


subsection \<open>Totals\<close>

text \<open>
  The memo that computes \<open>totalPoints\<close>, \<open>maxPoints\<close>, \<open>percent\<close> and
  \<open>perPeriodTotals\<close>:
  \<^verbatim>\<open>
  settings.periods.forEach((p) => {
    let t = 0; let m = 0;
    settings.categories.forEach((c) => {
      const val = record.matrix?.[p.id]?.[c.id];
      if (val !== null && val !== undefined) { t += val; }
      m += settings.scaleMax;
    });
    per[p.id] = { total: t, max: m };
    total += t; max += m;
  });
  \<close>
  Each \<open>forEach\<close> is a left fold over the list with the loop variables as accumulator.
  The read \<open>record.matrix?.[p.id]?.[c.id]\<close> is a read of own properties here, which is
  what it is under \<open>plainIds\<close>.
\<close>

fun jsadd :: "jsnum \<Rightarrow> jsnum \<Rightarrow> jsnum" where
  "jsadd (Num a) (Num b) = Num (a + b)"
| "jsadd _ _ = NaN"

definition addScore :: "int \<Rightarrow> int option option \<Rightarrow> int" where
  "addScore t val = (case val of Some (Some v) \<Rightarrow> t + v | _ \<Rightarrow> t)"

definition periodTotals :: "settings \<Rightarrow> rubric_record \<Rightarrow> string \<Rightarrow> int \<times> jsnum" where
  "periodTotals s r pid =
     foldl (\<lambda>(t, m) c. (addScore t (cell r pid (item_id c)), jsadd m (scaleMax s)))
       (0, Num 0) (categories s)"

type_synonym totals_acc = "int \<times> jsnum \<times> (string \<rightharpoonup> int \<times> jsnum)"

definition totalsStep :: "settings \<Rightarrow> rubric_record \<Rightarrow> totals_acc \<Rightarrow> item \<Rightarrow> totals_acc" where
  "totalsStep s r acc p =
     (case acc of (tot, mx, per) \<Rightarrow>
        let (t, m) = periodTotals s r (item_id p)
        in (tot + t, jsadd mx m, per(item_id p \<mapsto> (t, m))))"

definition totalsLoop :: "settings \<Rightarrow> rubric_record \<Rightarrow> totals_acc" where
  "totalsLoop s r = foldl (totalsStep s r) (0, Num 0, Map.empty) (periods s)"

record totals =
  totalPoints :: int
  maxPoints :: jsnum
  percent :: int
  perPeriodTotals :: "string \<rightharpoonup> int \<times> jsnum"

definition computeTotals :: "settings \<Rightarrow> rubric_record \<Rightarrow> totals" where
  "computeTotals s r =
     (let (tot, mx, per) = totalsLoop s r
      in \<lparr>totalPoints = tot, maxPoints = mx, percent = percentOf tot mx, perPeriodTotals = per\<rparr>)"

text \<open>
  The quantities of the specification, in its words: the period total is the sum over
  the categories of the score, "unset" counting 0; the period maximum is the number of
  categories times \<open>scaleMax\<close>; the daily total and maximum are the sums over the
  periods; \<open>spec_percent\<close> is the percentage rounded in exact arithmetic.
\<close>

definition spec_periodTotal :: "settings \<Rightarrow> rubric_record \<Rightarrow> string \<Rightarrow> int" where
  "spec_periodTotal s r pid =
     (\<Sum>c\<leftarrow>categories s. case cell r pid (item_id c) of Some (Some v) \<Rightarrow> v | _ \<Rightarrow> 0)"

definition spec_periodMax :: "settings \<Rightarrow> int \<Rightarrow> int" where
  "spec_periodMax s k = int (length (categories s)) * k"

definition spec_dailyTotal :: "settings \<Rightarrow> rubric_record \<Rightarrow> int" where
  "spec_dailyTotal s r = (\<Sum>p\<leftarrow>periods s. spec_periodTotal s r (item_id p))"

definition spec_dailyMax :: "settings \<Rightarrow> int \<Rightarrow> int" where
  "spec_dailyMax s k = (\<Sum>p\<leftarrow>periods s. spec_periodMax s k)"


text \<open>
  A second example: one period, four categories on the 0..10 scale, scores 10, 10, 3, 0
  (total 23 of 40); \<open>met_record\<close> has 4 in place of 3 (total 24).
\<close>

definition tie_settings :: settings where
  "tie_settings =
     \<lparr>scaleMax = Num 10, scaleLabels = [],
      categories = [\<lparr>item_id = ''c1'', item_name = ''A''\<rparr>, \<lparr>item_id = ''c2'', item_name = ''B''\<rparr>,
                    \<lparr>item_id = ''c3'', item_name = ''C''\<rparr>, \<lparr>item_id = ''c4'', item_name = ''D''\<rparr>],
      periods = [\<lparr>item_id = ''p1'', item_name = ''Morning''\<rparr>],
      goalPoints = Num 24\<rparr>"

definition tie_record :: rubric_record where
  "tie_record =
     \<lparr>rec_id = Some ''r2'', rec_studentId = Some ''s1'', rec_date = Some ''2024-05-02'',
      matrix = [''p1'' \<mapsto> [''c1'' \<mapsto> Some 10, ''c2'' \<mapsto> Some 10, ''c3'' \<mapsto> Some 3, ''c4'' \<mapsto> Some 0]],
      periodComments = Some Map.empty, dailyNote = Some [], staff = Some []\<rparr>"

definition met_record :: rubric_record where
  "met_record = tie_record\<lparr>matrix := [''p1'' \<mapsto> [''c1'' \<mapsto> Some 10, ''c2'' \<mapsto> Some 10, ''c3'' \<mapsto> Some 4, ''c4'' \<mapsto> Some 0]]\<rparr>"

text \<open>\<^verbatim>\<open>totalPoints >= settings.goalPoints ? "Met" : "Not Met"\<close>; a comparison with \<open>NaN\<close> is false.\<close>

definition jsge :: "int \<Rightarrow> jsnum \<Rightarrow> bool" where
  "jsge t g = (case g of NaN \<Rightarrow> False | Num n \<Rightarrow> n \<le> t)"

definition goalMet :: "settings \<Rightarrow> rubric_record \<Rightarrow> bool" where
  "goalMet s r = jsge (totalPoints (computeTotals s r)) (goalPoints s)"

subsection \<open>Students, goal and scale edits, record creation\<close>

text \<open>
  \<^verbatim>\<open>
  function removeStudent(id) {
    if (!confirm("Remove this student? ...")) return;
    setStudents((prev) => prev.filter((s) => s.id !== id));
    if (studentId === id) setStudentId(students[0]?.id);
  }
  \<close>
  The answer to \<open>confirm\<close> is an argument. \<open>students\<close> in the last line is the roster of
  the render in which the handler was created, that is, the roster before the removal.
\<close>

definition removeStudent :: "bool \<Rightarrow> string \<Rightarrow> 's app_state \<Rightarrow> 's app_state" where
  "removeStudent confirmed i st =
     (if \<not> confirmed then st
      else st\<lparr>students := filter (\<lambda>s. item_id s \<noteq> i) (students st),
              studentId := (if studentId st = Some i
                            then (case students st of [] \<Rightarrow> None | s # _ \<Rightarrow> Some (item_id s))
                            else studentId st)\<rparr>)"

text \<open>
  The two number inputs:
  \<^verbatim>\<open>goalPoints: clamp(parseInt(e.target.value || 0, 10), 0, 999)\<close> and
  \<^verbatim>\<open>scaleMax: clamp(parseInt(e.target.value || 0, 10), 1, 10)\<close>.
  An empty value is replaced by the number 0, which \<open>parseInt\<close> reads as \<open>''0''\<close>.
\<close>

definition editGoalPoints :: "string \<Rightarrow> settings app_state \<Rightarrow> settings app_state" where
  "editGoalPoints v st =
     st\<lparr>settings := (settings st)
       \<lparr>goalPoints := clamp (parseInt (if v = [] then ''0'' else v)) (Num 0) (Num 999)\<rparr>\<rparr>"

definition editScaleMax :: "string \<Rightarrow> settings app_state \<Rightarrow> settings app_state" where
  "editScaleMax v st =
     st\<lparr>settings := (settings st)
       \<lparr>scaleMax := clamp (parseInt (if v = [] then ''0'' else v)) (Num 1) (Num 10)\<rparr>\<rparr>"

text \<open>
  The record of a (date, student) pair that has none yet: every cell of the current
  periods and categories is \<open>null\<close>. \<open>uid()\<close> is random; its result is an argument.
  The effect on \<open>key\<close> stores this record when \<open>entries[key]\<close> is missing (as an own
  property: the code's test \<open>!entries[key]\<close> is this one for a key that is no inherited
  name, and the loops write own properties under \<open>plainIds\<close>).
\<close>

definition freshRow :: "item list \<Rightarrow> row" where
  "freshRow cats = foldl (\<lambda>row c. row(item_id c \<mapsto> None)) Map.empty cats"

definition freshMatrix :: "settings \<Rightarrow> matrix" where
  "freshMatrix s = foldl (\<lambda>m p. m(item_id p \<mapsto> freshRow (categories s))) Map.empty (periods s)"

definition freshRecord :: "string \<Rightarrow> settings app_state \<Rightarrow> rubric_record" where
  "freshRecord uid st =
     \<lparr>rec_id = Some uid, rec_studentId = studentId st, rec_date = Some (date st),
      matrix = freshMatrix (settings st), periodComments = Some Map.empty,
      dailyNote = Some [], staff = Some []\<rparr>"

definition ensureRecord :: "string \<Rightarrow> settings app_state \<Rightarrow> settings app_state" where
  "ensureRecord uid st =
     (if entries st (key st) = None
      then st\<lparr>entries := (entries st)(key st \<mapsto> freshRecord uid st)\<rparr> else st)"



text \<open>
  Example states: a roster of two students; the running example after
  \<open>setScore(p2, c1, "3")\<close>; and that state after \<open>scaleMax\<close> is edited to 1.
\<close>

definition roster_state :: "settings app_state" where
  "roster_state = example_state\<lparr>students :=
     [\<lparr>item_id = ''s1'', item_name = ''Seth Example''\<rparr>, \<lparr>item_id = ''s2'', item_name = ''Ada''\<rparr>]\<rparr>"



subsection \<open>JSON values, settings export and import\<close>

text \<open>
  The value \<open>JSON.parse\<close> returns, and the value the settings cell of the state holds
  after an import: \<open>null\<close>, a boolean, a number, a string, an array or an object (its
  properties in order). Numbers are integers or \<open>NaN\<close>, as everywhere in this theory;
  a JSON document with a fractional number is outside the model.
\<close>

datatype jsval =
    JNull
  | JBool bool
  | JNum jsnum
  | JStr string
  | JArr "jsval list"
  | JObj "(string \<times> jsval) list"

text \<open>
  The JavaScript value of a well-shaped settings object, with the property order of
  \<open>DEFAULT_SETTINGS\<close>, and the state whose settings cell holds it.
\<close>

definition itemJS :: "item \<Rightarrow> jsval" where
  "itemJS x = JObj [(''id'', JStr (item_id x)), (''name'', JStr (item_name x))]"

definition settingsJS :: "settings \<Rightarrow> jsval" where
  "settingsJS s =
     JObj [(''scaleMax'', JNum (scaleMax s)),
           (''scaleLabels'', JObj (map (\<lambda>(k, l). (k, JStr l)) (scaleLabels s))),
           (''categories'', JArr (map itemJS (categories s))),
           (''periods'', JArr (map itemJS (periods s))),
           (''goalPoints'', JNum (goalPoints s))]"

definition jsState :: "settings app_state \<Rightarrow> jsval app_state" where
  "jsState st =
     \<lparr>students = students st, settings = settingsJS (settings st), date = date st,
      studentId = studentId st, entries = entries st\<rparr>"

text \<open>
  \<open>JSON.stringify\<close> and \<open>JSON.parse\<close> belong to the platform, not to the repository.
  The text of a file is represented by what \<open>JSON.parse\<close> makes of it: \<open>None\<close> when it
  throws a SyntaxError, the parsed value otherwise. \<open>JSON.stringify(v, null, 2)\<close> writes a
  text that parses to \<open>v\<close> with every \<open>NaN\<close> replaced by \<open>null\<close>.
\<close>

fun stringifyValue :: "jsval \<Rightarrow> jsval" where
  "stringifyValue (JNum NaN) = JNull"
| "stringifyValue (JArr xs) = JArr (map stringifyValue xs)"
| "stringifyValue (JObj kvs) = JObj (map (\<lambda>(k, v). (k, stringifyValue v)) kvs)"
| "stringifyValue v = v"

type_synonym json_text = "jsval option"

definition JSON_stringify :: "jsval \<Rightarrow> json_text" where
  "JSON_stringify v = Some (stringifyValue v)"

definition JSON_parse :: "json_text \<Rightarrow> jsval option" where
  "JSON_parse t = t"

text \<open>\<^verbatim>\<open>const json = JSON.stringify(settings, null, 2);\<close> is the content of the downloaded file.\<close>

definition exportSettingsJSON :: "jsval app_state \<Rightarrow> json_text" where
  "exportSettingsJSON st = JSON_stringify (settings st)"

text \<open>
  The guard \<^verbatim>\<open>if (!parsed || typeof parsed !== "object") throw new Error("Bad JSON");\<close>
  \<open>typeof\<close> is \<open>"object"\<close> for \<open>null\<close>, arrays and objects.
\<close>

definition truthy :: "jsval \<Rightarrow> bool" where
  "truthy v =
     (case v of
        JNull \<Rightarrow> False
      | JBool b \<Rightarrow> b
      | JNum NaN \<Rightarrow> False
      | JNum (Num n) \<Rightarrow> n \<noteq> 0
      | JStr s \<Rightarrow> s \<noteq> []
      | JArr _ \<Rightarrow> True
      | JObj _ \<Rightarrow> True)"

definition typeofObject :: "jsval \<Rightarrow> bool" where
  "typeofObject v = (case v of JNull \<Rightarrow> True | JArr _ \<Rightarrow> True | JObj _ \<Rightarrow> True | _ \<Rightarrow> False)"

text \<open>
  \<open>v.k\<close> for a value \<open>v\<close> other than \<open>null\<close> and one of the property names the import
  reads (\<open>periods\<close>, \<open>categories\<close>, \<open>id\<close>): the own property of an object, and
  \<open>undefined\<close> (\<open>None\<close>) for an array, a string, a number or a boolean, which have no
  property of these names.
\<close>

definition getProp :: "string \<Rightarrow> jsval \<Rightarrow> jsval option" where
  "getProp k v = (case v of JObj kvs \<Rightarrow> map_of kvs k | _ \<Rightarrow> None)"

text \<open>
  \<open>matrix[p.id]\<close> converts \<open>p.id\<close> to a property key, its string: \<open>undefined\<close>,
  \<open>null\<close>, \<open>true\<close>, a number in decimal (what JavaScript prints for an integer below
  \<open>10^21\<close>), a string itself, an array as its elements joined by commas (\<open>null\<close>
  elements empty), an object as \<open>[object Object]\<close>.
\<close>

function showNat :: "nat \<Rightarrow> string" where
  "showNat n = (if n < 10 then [char_of (48 + n)] else showNat (n div 10) @ [char_of (48 + n mod 10)])"
  by pat_completeness auto
termination
  by (relation "measure id") auto

declare showNat.simps [simp del]

definition showInt :: "int \<Rightarrow> string" where
  "showInt i = (if i < 0 then CHR ''-'' # showNat (nat (- i)) else showNat (nat i))"

fun joinComma :: "string list \<Rightarrow> string" where
  "joinComma [] = []"
| "joinComma [x] = x"
| "joinComma (x # y # ys) = x @ '','' @ joinComma (y # ys)"

fun toString :: "jsval \<Rightarrow> string" where
  "toString JNull = ''null''"
| "toString (JBool b) = (if b then ''true'' else ''false'')"
| "toString (JNum NaN) = ''NaN''"
| "toString (JNum (Num n)) = showInt n"
| "toString (JStr s) = s"
| "toString (JArr xs) = joinComma (map (\<lambda>x. if x = JNull then [] else toString x) xs)"
| "toString (JObj kvs) = ''[object Object]''"

definition toPropertyKey :: "jsval option \<Rightarrow> string" where
  "toPropertyKey x = (case x of None \<Rightarrow> ''undefined'' | Some v \<Rightarrow> toString v)"

text \<open>
  The updater the import passes to \<open>setEntries\<close>:
  \<^verbatim>\<open>
  const rec = prev[key];
  const matrix = {};
  parsed.periods.forEach((p) => {
    matrix[p.id] = {};
    parsed.categories.forEach((c) => { matrix[p.id][c.id] = null; });
  });
  return { ...prev, [key]: { ...rec, matrix } };
  \<close>
  \<open>x.forEach\<close> is a function only when \<open>x\<close> is an array; calling it on anything else,
  and reading \<open>id\<close> of a \<open>null\<close> element, throws a TypeError.
\<close>

datatype js_error = TypeError

definition arrayOf :: "jsval option \<Rightarrow> js_error + jsval list" where
  "arrayOf x = (case x of Some (JArr xs) \<Rightarrow> Inr xs | _ \<Rightarrow> Inl TypeError)"

fun importRow :: "jsval list \<Rightarrow> row \<Rightarrow> js_error + row" where
  "importRow [] row = Inr row"
| "importRow (c # cs) row =
     (if c = JNull then Inl TypeError
      else importRow cs (row(toPropertyKey (getProp ''id'' c) \<mapsto> None)))"

fun importMatrix :: "jsval \<Rightarrow> jsval list \<Rightarrow> matrix \<Rightarrow> js_error + matrix" where
  "importMatrix parsed [] m = Inr m"
| "importMatrix parsed (p # ps) m =
     (if p = JNull then Inl TypeError
      else (case arrayOf (getProp ''categories'' parsed) of
              Inl e \<Rightarrow> Inl e
            | Inr cs \<Rightarrow>
                (case importRow cs Map.empty of
                   Inl e \<Rightarrow> Inl e
                 | Inr row \<Rightarrow> importMatrix parsed ps (m(toPropertyKey (getProp ''id'' p) \<mapsto> row)))))"

definition emptyRecord :: rubric_record where
  "emptyRecord =
     \<lparr>rec_id = None, rec_studentId = None, rec_date = None, matrix = Map.empty,
      periodComments = None, dailyNote = None, staff = None\<rparr>"

definition importEntries ::
  "jsval \<Rightarrow> string \<Rightarrow> (string \<rightharpoonup> rubric_record) \<Rightarrow> js_error + (string \<rightharpoonup> rubric_record)" where
  "importEntries parsed k prev =
     (case arrayOf (getProp ''periods'' parsed) of
        Inl e \<Rightarrow> Inl e
      | Inr ps \<Rightarrow>
          (case importMatrix parsed ps Map.empty of
             Inl e \<Rightarrow> Inl e
           | Inr m \<Rightarrow>
               Inr (prev(k \<mapsto> (case prev k of None \<Rightarrow> emptyRecord | Some r \<Rightarrow> r)\<lparr>matrix := m\<rparr>))))"

text \<open>
  The \<open>onload\<close> callback of \<open>importSettingsJSON\<close>:
  \<^verbatim>\<open>
  try {
    const parsed = JSON.parse(e.target.result);
    if (!parsed || typeof parsed !== "object") throw new Error("Bad JSON");
    setSettings(parsed);
    setEntries((prev) => { ... });
  } catch (err) { alert("Invalid settings file"); }
  \<close>
  Outcomes: \<open>Alerted st\<close>, the catch branch was taken before any setter was called, the
  alert is shown and the state is as before. Otherwise both setters were called and the
  callback returned, with no alert. React runs the updater when it processes the queue,
  after the callback has returned (a pending update from \<open>setSettings\<close> rules out eager
  evaluation), so a TypeError of the updater is outside the \<open>try\<close>: \<open>RenderFailed v\<close>,
  no alert, and the render fails. \<open>Imported st'\<close>: the updater returned, and \<open>st'\<close> is the
  state the two updates hand to the next render. The function ends there: the render of
  the component with \<open>st'\<close> is not part of it, and for a value that is not a settings
  object (a name that is no string, say) that render can throw in its turn, in which
  case React commits nothing.
\<close>

datatype import_outcome =
    Alerted "jsval app_state"
  | Imported "jsval app_state"
  | RenderFailed jsval

definition importSettingsJSON :: "json_text \<Rightarrow> jsval app_state \<Rightarrow> import_outcome" where
  "importSettingsJSON text st =
     (case JSON_parse text of
        None \<Rightarrow> Alerted st
      | Some parsed \<Rightarrow>
          if \<not> truthy parsed \<or> \<not> typeofObject parsed then Alerted st
          else (case importEntries parsed (key st) (entries st) of
                  Inl e \<Rightarrow> RenderFailed parsed
                | Inr es \<Rightarrow> Imported (st\<lparr>settings := parsed, entries := es\<rparr>)))"

text \<open>The file \<^verbatim>\<open>{"categories": [], "periods": []}\<close>: no scale, no goal.\<close>

definition lacking_payload :: jsval where
  "lacking_payload = JObj [(''categories'', JArr []), (''periods'', JArr [])]"

subsection \<open>The operations of the component\<close>

text \<open>
  The remaining handlers, then every operation that changes the state as one event type.

  \<^verbatim>\<open>
  function addStudent(name) {
    const s = { id: uid(), name: name.trim() };
    if (!s.name) return;
    setStudents((prev) => [...prev, s]);
    setStudentId(s.id);
  }
  function renameStudent(id, newName) {
    setStudents((prev) => prev.map((s) => (s.id === id ? { ...s, name: newName } : s)));
  }
  \<close>
  \<open>trim\<close> removes the white space at both ends; the result of \<open>uid()\<close> is an argument.
\<close>

definition trim :: "string \<Rightarrow> string" where
  "trim s = rev (dropWhile isWhiteSpace (rev (dropWhile isWhiteSpace s)))"

definition addStudent :: "string \<Rightarrow> string \<Rightarrow> 's app_state \<Rightarrow> 's app_state" where
  "addStudent uid name st =
     (if trim name = [] then st
      else st\<lparr>students := students st @ [\<lparr>item_id = uid, item_name = trim name\<rparr>],
              studentId := Some uid\<rparr>)"

definition renameStudent :: "string \<Rightarrow> string \<Rightarrow> 's app_state \<Rightarrow> 's app_state" where
  "renameStudent i newName st =
     st\<lparr>students := map (\<lambda>s. if item_id s = i then s\<lparr>item_name := newName\<rparr> else s) (students st)\<rparr>"

text \<open>
  \<^verbatim>\<open>
  function updateRecord(mut) {
    setEntries((prev) => ({ ...prev, [key]: { ...prev[key], ...mut } }));
  }
  \<close>
  called with \<^verbatim>\<open>{ staff: e.target.value }\<close>, \<^verbatim>\<open>{ dailyNote: e.target.value }\<close> and
  \<^verbatim>\<open>{ periodComments: { ...record.periodComments, [p.id]: e.target.value } }\<close>. The
  object \<open>mut\<close> is the function that overwrites its fields. With no record under the key
  the code builds a record that has the fields of \<open>mut\<close> and no matrix, which
  \<open>rubric_record\<close> does not represent: the result is \<open>None\<close>. (The effect on \<open>key\<close> stores
  a record before an input of the page can be used.)
\<close>

definition updateRecord :: "(rubric_record \<Rightarrow> rubric_record) \<Rightarrow> 's app_state \<Rightarrow> 's app_state option" where
  "updateRecord mut st =
     (case entries st (key st) of
        None \<Rightarrow> None
      | Some r \<Rightarrow> Some (st\<lparr>entries := (entries st)(key st \<mapsto> mut r)\<rparr>))"

definition setStaff :: "string \<Rightarrow> 's app_state \<Rightarrow> 's app_state option" where
  "setStaff v = updateRecord (\<lambda>r. r\<lparr>staff := Some v\<rparr>)"

definition setDailyNote :: "string \<Rightarrow> 's app_state \<Rightarrow> 's app_state option" where
  "setDailyNote v = updateRecord (\<lambda>r. r\<lparr>dailyNote := Some v\<rparr>)"

definition setPeriodComment :: "string \<Rightarrow> string \<Rightarrow> 's app_state \<Rightarrow> 's app_state option" where
  "setPeriodComment periodId v =
     updateRecord (\<lambda>r. r\<lparr>periodComments :=
       Some ((case periodComments r of None \<Rightarrow> Map.empty | Some m \<Rightarrow> m)(periodId \<mapsto> v))\<rparr>)"

text \<open>
  The settings editors:
  \<^verbatim>\<open>
  function addCategory() {
    setSettings((prev) => ({ ...prev, categories: [...prev.categories, { id: uid(), name: "New Category" }] }));
  }
  function addPeriod() {
    setSettings((prev) => ({ ...prev, periods: [...prev.periods, { id: uid(), name: "New Period" }] }));
  }
  \<close>
  and the callbacks given to \<open>EditableText\<close> in the table head and in the first column,
  \<^verbatim>\<open>categories: prev.categories.map((x) => x.id === c.id ? { ...x, name: v } : x)\<close> and
  \<^verbatim>\<open>periods: prev.periods.map((x) => x.id === p.id ? { ...x, name: v } : x)\<close>.
\<close>

definition addCategory :: "string \<Rightarrow> settings app_state \<Rightarrow> settings app_state" where
  "addCategory uid st =
     st\<lparr>settings := (settings st)
       \<lparr>categories := categories (settings st) @ [\<lparr>item_id = uid, item_name = ''New Category''\<rparr>]\<rparr>\<rparr>"

definition addPeriod :: "string \<Rightarrow> settings app_state \<Rightarrow> settings app_state" where
  "addPeriod uid st =
     st\<lparr>settings := (settings st)
       \<lparr>periods := periods (settings st) @ [\<lparr>item_id = uid, item_name = ''New Period''\<rparr>]\<rparr>\<rparr>"

definition renameCategory :: "string \<Rightarrow> string \<Rightarrow> settings app_state \<Rightarrow> settings app_state" where
  "renameCategory i v st =
     st\<lparr>settings := (settings st)
       \<lparr>categories := map (\<lambda>x. if item_id x = i then x\<lparr>item_name := v\<rparr> else x)
          (categories (settings st))\<rparr>\<rparr>"

definition renamePeriod :: "string \<Rightarrow> string \<Rightarrow> settings app_state \<Rightarrow> settings app_state" where
  "renamePeriod i v st =
     st\<lparr>settings := (settings st)
       \<lparr>periods := map (\<lambda>x. if item_id x = i then x\<lparr>item_name := v\<rparr> else x)
          (periods (settings st))\<rparr>\<rparr>"

text \<open>
  \<open>ScaleLabelsEditor\<close>, for the label of the level \<open>n\<close>:
  \<^verbatim>\<open>scaleLabels: { ...prev.scaleLabels, [n]: e.target.value }\<close>.
  The association list holds the properties in the order of the object: the array
  indices (canonical decimal numerals below \<open>2^32 - 1\<close>) in ascending order, then the
  other names. A name that is present keeps its place; the name of a new level is put
  among the array indices.
\<close>

definition isArrayIndex :: "string \<Rightarrow> bool" where
  "isArrayIndex k =
     (k \<noteq> [] \<and> list_all isDigit k \<and> (k = ''0'' \<or> hd k \<noteq> CHR ''0'') \<and>
      digitsValue k < 4294967295)"

fun insertLabel :: "string \<Rightarrow> string \<Rightarrow> (string \<times> string) list \<Rightarrow> (string \<times> string) list" where
  "insertLabel k v [] = [(k, v)]"
| "insertLabel k v ((k', v') # kvs) =
     (if isArrayIndex k' \<and> digitsValue k' < digitsValue k then (k', v') # insertLabel k v kvs
      else (k, v) # (k', v') # kvs)"

definition setLabel :: "nat \<Rightarrow> string \<Rightarrow> (string \<times> string) list \<Rightarrow> (string \<times> string) list" where
  "setLabel n v kvs =
     (if showNat n \<in> fst ` set kvs
      then map (\<lambda>(k', v'). if k' = showNat n then (k', v) else (k', v')) kvs
      else insertLabel (showNat n) v kvs)"

definition editScaleLabel :: "nat \<Rightarrow> string \<Rightarrow> settings app_state \<Rightarrow> settings app_state" where
  "editScaleLabel n v st =
     st\<lparr>settings := (settings st)\<lparr>scaleLabels := setLabel n v (scaleLabels (settings st))\<rparr>\<rparr>"

text \<open>
  \<open>ReorderableList\<close>, for an index \<open>idx\<close> of \<open>items\<close>:
  \<^verbatim>\<open>
  function move(idx, dir) {
    const j = idx + dir;
    if (j < 0 || j >= items.length) return;
    const next = [...items];
    const [it] = next.splice(idx, 1);
    next.splice(j, 0, it);
    setItems(next);
  }
  function remove(idx) { const next = [...items]; next.splice(idx, 1); setItems(next); }
  function rename(idx, name) {
    const next = [...items];
    next[idx] = { ...next[idx], name };
    setItems(next);
  }
  \<close>
  Each function gives the list \<open>next\<close>; \<open>move\<close> gives \<open>None\<close> when it returns before
  \<open>setItems\<close>. The component is used twice, with
  \<^verbatim>\<open>setItems={(items) => setSettings((prev) => ({ ...prev, categories: items }))}\<close> and
  the same for \<open>periods\<close>.
\<close>

definition moveItem :: "nat \<Rightarrow> int \<Rightarrow> item list \<Rightarrow> item list option" where
  "moveItem idx dir items =
     (let j = int idx + dir in
      if j < 0 \<or> int (length items) \<le> j then None
      else (let rest = take idx items @ drop (Suc idx) items
            in Some (take (nat j) rest @ [items ! idx] @ drop (nat j) rest)))"

definition removeAt :: "nat \<Rightarrow> item list \<Rightarrow> item list" where
  "removeAt idx items = take idx items @ drop (Suc idx) items"

definition renameAt :: "nat \<Rightarrow> string \<Rightarrow> item list \<Rightarrow> item list" where
  "renameAt idx name items = items[idx := (items ! idx)\<lparr>item_name := name\<rparr>]"

datatype listName = Categories | Periods

definition itemsOf :: "listName \<Rightarrow> settings \<Rightarrow> item list" where
  "itemsOf l s = (case l of Categories \<Rightarrow> categories s | Periods \<Rightarrow> periods s)"

definition setItems :: "listName \<Rightarrow> item list \<Rightarrow> settings app_state \<Rightarrow> settings app_state" where
  "setItems l items st =
     (case l of
        Categories \<Rightarrow> st\<lparr>settings := (settings st)\<lparr>categories := items\<rparr>\<rparr>
      | Periods \<Rightarrow> st\<lparr>settings := (settings st)\<lparr>periods := items\<rparr>\<rparr>)"

text \<open>
  The import of a file that holds the settings \<open>s\<close>, as an operation on states with
  settings: the file is the text \<open>JSON.stringify\<close> writes for \<open>s\<close> (a JSON text has no
  \<open>NaN\<close>), the import is \<open>importSettingsJSON\<close>, and the state it yields, whose settings
  cell holds the value of \<open>s\<close>, is read as the state with the settings \<open>s\<close>.
\<close>

definition importSettings :: "settings \<Rightarrow> settings app_state \<Rightarrow> settings app_state option" where
  "importSettings s st =
     (if scaleMax s = NaN \<or> goalPoints s = NaN then None
      else (case importSettingsJSON (JSON_stringify (settingsJS s)) (jsState st) of
              Imported st' \<Rightarrow> Some (st\<lparr>settings := s, entries := entries st'\<rparr>)
            | _ \<Rightarrow> None))"

text \<open>
  Every call of a state setter in the source, as an event: the inputs and buttons of
  the page, the settings import, and the two effects that write \<open>entries\<close> (the creation
  of the record of a new key, and the reconciliation). The persist effect and the
  exports write no state. \<open>step\<close> gives the state after the event, and \<open>None\<close> when

  \<^item> the updater throws a TypeError (\<open>setScore\<close> with no record under the key), or the
    result is no state of this model (\<open>updateRecord\<close> with no record under the key; an
    import of settings with \<open>NaN\<close>), or
  \<^item> the page has no control that sends the event: the buttons and inputs of
    \<open>ReorderableList\<close> exist for the indices of the list, and \<open>ScaleLabelsEditor\<close> has one
    input for each element of \<^verbatim>\<open>Array.from({ length: settings.scaleMax + 1 }, ...)\<close>, that
    is for \<open>n \<le> scaleMax\<close>.

  \<open>setDate(e.target.value)\<close> and \<open>setStudentId(e.target.value)\<close>, \<open>setStudentId(s.id)\<close>
  store their argument.
\<close>

datatype event =
    SetDate string
  | SelectStudent string
  | AddStudent string string
  | RenameStudent string string
  | RemoveStudent bool string
  | SetStaff string
  | SetDailyNote string
  | SetPeriodComment string string
  | SetScore string string string
  | EditGoalPoints string
  | EditScaleMax string
  | EditScaleLabel nat string
  | AddCategory string
  | AddPeriod string
  | RenameCategory string string
  | RenamePeriod string string
  | MoveItem listName nat int
  | RemoveItem listName nat
  | RenameItem listName nat string
  | ImportSettings settings
  | EnsureRecord string
  | Reconcile

fun step :: "event \<Rightarrow> settings app_state \<Rightarrow> settings app_state option" where
  "step (SetDate v) st = Some (st\<lparr>date := v\<rparr>)"
| "step (SelectStudent i) st = Some (st\<lparr>studentId := Some i\<rparr>)"
| "step (AddStudent uid name) st = Some (addStudent uid name st)"
| "step (RenameStudent i newName) st = Some (renameStudent i newName st)"
| "step (RemoveStudent confirmed i) st = Some (removeStudent confirmed i st)"
| "step (SetStaff v) st = setStaff v st"
| "step (SetDailyNote v) st = setDailyNote v st"
| "step (SetPeriodComment periodId v) st = setPeriodComment periodId v st"
| "step (SetScore periodId categoryId val) st = setScore periodId categoryId val st"
| "step (EditGoalPoints v) st = Some (editGoalPoints v st)"
| "step (EditScaleMax v) st = Some (editScaleMax v st)"
| "step (EditScaleLabel n v) st =
     (case scaleMax (settings st) of
        NaN \<Rightarrow> None
      | Num m \<Rightarrow> if int n \<le> m then Some (editScaleLabel n v st) else None)"
| "step (AddCategory uid) st = Some (addCategory uid st)"
| "step (AddPeriod uid) st = Some (addPeriod uid st)"
| "step (RenameCategory i v) st = Some (renameCategory i v st)"
| "step (RenamePeriod i v) st = Some (renamePeriod i v st)"
| "step (MoveItem l idx dir) st =
     (if idx < length (itemsOf l (settings st))
      then (case moveItem idx dir (itemsOf l (settings st)) of
              None \<Rightarrow> Some st
            | Some next \<Rightarrow> Some (setItems l next st))
      else None)"
| "step (RemoveItem l idx) st =
     (if idx < length (itemsOf l (settings st))
      then Some (setItems l (removeAt idx (itemsOf l (settings st))) st) else None)"
| "step (RenameItem l idx name) st =
     (if idx < length (itemsOf l (settings st))
      then Some (setItems l (renameAt idx name (itemsOf l (settings st))) st) else None)"
| "step (ImportSettings s) st = importSettings s st"
| "step (EnsureRecord uid) st = Some (ensureRecord uid st)"
| "step Reconcile st = Some (reconcile st)"





subsection \<open>Facts about \<open>parseInt\<close> and \<open>setScore\<close>\<close>

lemma parseInt_5: "parseInt ''5'' = Num 5"
  by (simp add: parseInt_def isWhiteSpace_def isDigit_def digitsValue_def digitValue_def)

lemma parseInt_minus_1: "parseInt ''-1'' = Num (- 1)"
  by (simp add: parseInt_def isWhiteSpace_def isDigit_def digitsValue_def digitValue_def)

lemma parseInt_abc: "parseInt ''abc'' = NaN"
  by (simp add: parseInt_def isWhiteSpace_def isDigit_def digitsValue_def digitValue_def)

lemma parseInt_empty: "parseInt [] = NaN"
  by (simp add: parseInt_def)

lemma scoreValue_Num:
  "scoreValue (Num m) val = (case parseInt val of NaN \<Rightarrow> None | Num n \<Rightarrow> Some (max 0 (min m n)))"
  by (cases "parseInt val") (auto simp: scoreValue_def clamp_def parseInt_empty)

text \<open>
  Claim C4. With an integer \<open>scaleMax\<close>, \<open>setScore\<close> stores "unset" (\<open>null\<close>) exactly
  when the input is empty or \<open>parseInt\<close> finds no integer in it, and otherwise the
  parsed integer clamped by \<open>max 0 (min scaleMax n)\<close>, which lies in \<open>[0, scaleMax]\<close>.
\<close>

theorem setScore_stores_clamped:
  assumes "entries st (key st) = Some r" and "scaleMax (settings st) = Num m"
  shows "\<exists>st' r'. setScore p c val st = Some st' \<and> entries st' (key st') = Some r' \<and>
           (cell r' p c = Some None \<longleftrightarrow> (val = [] \<or> parseInt val = NaN)) \<and>
           (\<forall>n. parseInt val = Num n \<longrightarrow> cell r' p c = Some (Some (max 0 (min m n)))) \<and>
           (0 \<le> m \<longrightarrow> (\<forall>v. cell r' p c = Some (Some v) \<longrightarrow> 0 \<le> v \<and> v \<le> m))"
proof -
  let ?v = "scoreValue (Num m) val"
  let ?r' = "r\<lparr>matrix := (matrix r)(p \<mapsto> (rowOf (matrix r) p)(c \<mapsto> ?v))\<rparr>"
  let ?st' = "st\<lparr>entries := (entries st)(key st \<mapsto> ?r')\<rparr>"
  have run: "setScore p c val st = Some ?st'"
    using assms by (simp add: setScore_def)
  have k: "key ?st' = key st"
    by (simp add: key_def)
  have stored: "cell ?r' p c = Some ?v"
    by (simp add: cell_def)
  have a: "(?v = None) = (val = [] \<or> parseInt val = NaN)"
    by (cases "parseInt val") (auto simp: scoreValue_Num parseInt_empty)
  have b: "\<forall>n. parseInt val = Num n \<longrightarrow> ?v = Some (max 0 (min m n))"
    by (simp add: scoreValue_Num)
  show ?thesis
  proof (intro exI conjI)
    show "setScore p c val st = Some ?st'" by (rule run)
    show "entries ?st' (key ?st') = Some ?r'" by (simp add: k)
    show "(cell ?r' p c = Some None) = (val = [] \<or> parseInt val = NaN)"
      unfolding stored using a by simp
    show "\<forall>n. parseInt val = Num n \<longrightarrow> cell ?r' p c = Some (Some (max 0 (min m n)))"
      unfolding stored using b by simp
    show "0 \<le> m \<longrightarrow> (\<forall>v. cell ?r' p c = Some (Some v) \<longrightarrow> 0 \<le> v \<and> v \<le> m)"
      unfolding stored by (cases "parseInt val") (auto simp: scoreValue_Num)
  qed
qed

lemma example_key: "key example_state = ''2024-05-01__s1''"
  by (simp add: key_def example_state_def)

lemma example_entry: "entries example_state (key example_state) = Some example_record"
  by (simp add: example_key) (simp add: example_state_def)

lemma example_scaleMax: "scaleMax (settings example_state) = Num 3"
  by (simp add: example_state_def example_settings_def)

text \<open>
  The instances of the specification, on the running example (\<open>scaleMax = 3\<close>):
  \<open>''5''\<close> stores 3, \<open>''-1''\<close> stores 0, the empty string and \<open>''abc''\<close> store "unset".
\<close>

theorem setScore_stores_clamped_witness:
  "(\<exists>st' r'. setScore ''p1'' ''c1'' ''5'' example_state = Some st' \<and>
      entries st' (key st') = Some r' \<and> cell r' ''p1'' ''c1'' = Some (Some 3)) \<and>
   (\<exists>st' r'. setScore ''p1'' ''c1'' ''-1'' example_state = Some st' \<and>
      entries st' (key st') = Some r' \<and> cell r' ''p1'' ''c1'' = Some (Some 0)) \<and>
   (\<exists>st' r'. setScore ''p1'' ''c1'' '''' example_state = Some st' \<and>
      entries st' (key st') = Some r' \<and> cell r' ''p1'' ''c1'' = Some None) \<and>
   (\<exists>st' r'. setScore ''p1'' ''c1'' ''abc'' example_state = Some st' \<and>
      entries st' (key st') = Some r' \<and> cell r' ''p1'' ''c1'' = Some None)"
proof -
  note t = setScore_stores_clamped [OF example_entry example_scaleMax, of "''p1''" "''c1''"]
  have 1: "\<exists>st' r'. setScore ''p1'' ''c1'' ''5'' example_state = Some st' \<and>
      entries st' (key st') = Some r' \<and> cell r' ''p1'' ''c1'' = Some (Some 3)"
    using t [of "''5''"] by (simp add: parseInt_5) blast
  have 2: "\<exists>st' r'. setScore ''p1'' ''c1'' ''-1'' example_state = Some st' \<and>
      entries st' (key st') = Some r' \<and> cell r' ''p1'' ''c1'' = Some (Some 0)"
    using t [of "''-1''"] by (simp add: parseInt_minus_1) blast
  have 3: "\<exists>st' r'. setScore ''p1'' ''c1'' '''' example_state = Some st' \<and>
      entries st' (key st') = Some r' \<and> cell r' ''p1'' ''c1'' = Some None"
    using t [of "''''"] by simp blast
  have 4: "\<exists>st' r'. setScore ''p1'' ''c1'' ''abc'' example_state = Some st' \<and>
      entries st' (key st') = Some r' \<and> cell r' ''p1'' ''c1'' = Some None"
    using t [of "''abc''"] by (simp add: parseInt_abc) blast
  from 1 2 3 4 show ?thesis by blast
qed

subsection \<open>Facts about reconciliation\<close>

lemma ensureCategories_apply:
  "ensureCategories cs row c =
     (case row c of Some v \<Rightarrow> Some v
      | None \<Rightarrow> if c \<in> item_id ` set cs then Some None else None)"
  by (induction cs arbitrary: row) (auto split: option.splits)

lemma ensureCategories_idem:
  "ensureCategories cs (ensureCategories cs row) = ensureCategories cs row"
  by (rule ext) (simp add: ensureCategories_apply split: option.splits)

lemma rowOf_upd: "rowOf (m(p \<mapsto> r)) q = (if q = p then r else rowOf m q)"
  by (simp add: rowOf_def)

lemma ensurePeriods_apply:
  "ensurePeriods cats ps m p =
     (if p \<in> item_id ` set ps then Some (ensureCategories cats (rowOf m p)) else m p)"
  by (induction ps arbitrary: m) (auto simp: rowOf_upd ensureCategories_idem)

lemma rowOf_ensurePeriods:
  "rowOf (ensurePeriods cats ps m) p =
     (if p \<in> item_id ` set ps then ensureCategories cats (rowOf m p) else rowOf m p)"
  by (simp add: rowOf_def ensurePeriods_apply)

lemma ensurePeriods_idem:
  "ensurePeriods cats ps (ensurePeriods cats ps m) = ensurePeriods cats ps m"
  by (rule ext) (simp add: ensurePeriods_apply rowOf_ensurePeriods ensureCategories_idem)

lemma reconcileRecord_idem: "reconcileRecord s (reconcileRecord s r) = reconcileRecord s r"
  by (simp add: reconcileRecord_def ensurePeriods_idem)

lemma cell_reconcileRecord:
  "cell (reconcileRecord s r) p c =
     (case cell r p c of Some v \<Rightarrow> Some v
      | None \<Rightarrow> if p \<in> item_id ` set (periods s) \<and> c \<in> item_id ` set (categories s)
                then Some None else None)"
  by (auto simp: cell_def reconcileRecord_def ensurePeriods_apply ensureCategories_apply rowOf_def
           split: option.splits)

lemma key_entries_upd: "key (st\<lparr>entries := e\<rparr>) = key st"
  by (simp add: key_def)

lemma reconcile_idem: "reconcile (reconcile st) = reconcile st"
  by (cases "entries st (key st)") (simp_all add: reconcile_def key_entries_upd reconcileRecord_idem)

lemma uid_not_inherited: "uidShaped k \<Longrightarrow> \<not> inheritedName k"
  by (auto simp: uidShaped_def inheritedName_def objectPrototypeNames_def isDigit_def)

lemma example_plainIds: "plainIds example_settings" "plainIds example_settings_added"
  by (simp_all add: plainIds_def inheritedName_def objectPrototypeNames_def
        example_settings_added_def example_settings_def)

lemma example_plainKey: "\<not> inheritedName (key example_state)"
  by (simp add: example_key inheritedName_def objectPrototypeNames_def)

text \<open>
  Claim C5. For settings whose ids are not names inherited from \<open>Object.prototype\<close>,
  in a state whose key is not such a name either:
  reconciliation is idempotent, on the record and on the state; a cell that is
  present before (scored, or holding \<open>null\<close>) keeps its value; an absent cell becomes
  "unset" when its period and category are in the settings and stays absent otherwise;
  nothing but the matrix of the record changes.
\<close>

theorem reconcile_idempotent_preserves_scores:
  assumes "plainIds s" and "settings st = s" and "\<not> inheritedName (key st)"
  shows "reconcileRecord s (reconcileRecord s r) = reconcileRecord s r \<and>
   reconcile (reconcile st) = reconcile st \<and>
   (\<forall>p c v. cell r p c = Some v \<longrightarrow> cell (reconcileRecord s r) p c = Some v) \<and>
   (\<forall>p c. cell r p c = None \<longrightarrow>
      cell (reconcileRecord s r) p c =
        (if p \<in> item_id ` set (periods s) \<and> c \<in> item_id ` set (categories s)
         then Some None else None)) \<and>
   reconcileRecord s r = r\<lparr>matrix := matrix (reconcileRecord s r)\<rparr>"
  by (simp add: reconcileRecord_idem reconcile_idem cell_reconcileRecord) (simp add: reconcileRecord_def)

lemma example_cells:
  "cell example_record ''p1'' ''c1'' = Some (Some 3)"
  "cell example_record ''p2'' ''c1'' = Some None"
  "cell example_record ''p1'' ''c3'' = None"
  "cell example_record ''p3'' ''c1'' = None"
  by (simp_all add: cell_def example_record_def example_matrix_def)

text \<open>
  On the running example, after a category \<open>c3\<close> is added: the score 3 of p1/c1 stays,
  p1/c3 is added as "unset", and a period that is not in the settings gets no cell.
\<close>

theorem reconcile_idempotent_preserves_scores_witness:
  "plainIds example_settings_added \<and> \<not> inheritedName (key example_state) \<and>
   cell example_record ''p1'' ''c1'' = Some (Some 3) \<and>
   cell (reconcileRecord example_settings_added example_record) ''p1'' ''c1'' = Some (Some 3) \<and>
   cell example_record ''p1'' ''c3'' = None \<and>
   cell (reconcileRecord example_settings_added example_record) ''p1'' ''c3'' = Some None \<and>
   cell example_record ''p3'' ''c1'' = None \<and>
   cell (reconcileRecord example_settings_added example_record) ''p3'' ''c1'' = None"
proof -
  have k: "\<not> inheritedName (key (example_state\<lparr>settings := example_settings_added\<rparr>))"
    using example_plainKey by (simp add: key_def)
  show ?thesis
    using reconcile_idempotent_preserves_scores [OF example_plainIds(2) _ k, of example_record]
    by (simp add: example_cells example_plainIds example_plainKey)
       (simp add: example_settings_added_def example_settings_def)
qed

subsection \<open>Facts about the binary64 rounding\<close>

lemma pow2_powi: "pow2 e = power_int 2 e"
  by (simp add: pow2_def power_int_def field_simps)

lemma bitLength_nonneg: "0 \<le> bitLength n"
  by (induction n rule: bitLength.induct) (simp add: bitLength.simps)

lemma bitLength_bounds:
  "0 < n \<Longrightarrow> 2 ^ nat (bitLength n - 1) \<le> n \<and> n < 2 ^ nat (bitLength n)"
proof (induction n rule: bitLength.induct)
  case (1 n)
  show ?case
  proof (cases "n div 2 = 0")
    case True
    with "1.prems" have n: "n = 1" by presburger
    have "bitLength 1 = 1"
      by (simp add: bitLength.simps)
    with n show ?thesis by simp
  next
    case False
    with "1.prems" have pos: "0 < n div 2" by presburger
    let ?b = "bitLength (n div 2)"
    from "1.IH" "1.prems" pos
    have ih: "2 ^ nat (?b - 1) \<le> n div 2 \<and> n div 2 < 2 ^ nat ?b" by simp
    have b1: "1 \<le> ?b"
    proof (rule ccontr)
      assume "\<not> 1 \<le> ?b"
      with bitLength_nonneg [of "n div 2"] have "?b = 0" by simp
      with ih pos show False by simp
    qed
    have bl: "bitLength n = 1 + ?b"
      using "1.prems" by (subst bitLength.simps) simp
    have e1: "(2::int) ^ nat ?b = 2 * 2 ^ nat (?b - 1)"
      using b1 by (metis Suc_nat_eq_nat_zadd1 add.commute diff_add_cancel diff_ge_0_iff_ge power_Suc)
    have e2: "(2::int) ^ nat (1 + ?b) = 2 * 2 ^ nat ?b"
      using b1 by (simp add: nat_add_distrib)
    have "2 * (n div 2) \<le> n" "n < 2 * (n div 2) + 2" by presburger+
    with ih e1 e2 show ?thesis
      unfolding bl by (simp add: algebra_simps)
  qed
qed

text \<open>\<open>binexp x\<close> is the binary exponent: \<open>2^e \<le> \<bar>x\<bar> < 2^(e + 1)\<close>.\<close>

lemma binexp_bounds:
  assumes "x \<noteq> 0"
  shows "pow2 (binexp x) \<le> \<bar>x\<bar> \<and> \<bar>x\<bar> < pow2 (binexp x + 1)"
proof -
  obtain p q where pq: "quotient_of \<bar>x\<bar> = (p, q)" by (cases "quotient_of \<bar>x\<bar>")
  from pq have q: "0 < q" by (rule quotient_of_denom_pos)
  from pq have x: "\<bar>x\<bar> = of_int p / of_int q" by (rule quotient_of_div)
  from assms have "0 < \<bar>x\<bar>" by simp
  with x q have p: "0 < p" by (simp add: zero_less_divide_iff)
  let ?a = "bitLength p" and ?b = "bitLength q"
  let ?k = "?a - ?b"
  from bitLength_bounds [OF p] have pa: "2 ^ nat (?a - 1) \<le> p" "p < 2 ^ nat ?a" by simp_all
  from bitLength_bounds [OF q] have qb: "2 ^ nat (?b - 1) \<le> q" "q < 2 ^ nat ?b" by simp_all
  have a1: "1 \<le> ?a" using pa(2) p bitLength_nonneg [of p]
    by (cases "?a = 0") auto
  have b1: "1 \<le> ?b" using qb(2) q bitLength_nonneg [of q]
    by (cases "?b = 0") auto
  have P1: "(power_int 2 (?a - 1) :: rat) \<le> of_int p"
  proof -
    have "(of_int (2 ^ nat (?a - 1)) :: rat) \<le> of_int p" using pa(1) by (simp only: of_int_le_iff)
    then show ?thesis using a1 by (simp add: power_int_def)
  qed
  have P2: "(of_int p :: rat) < power_int 2 ?a"
  proof -
    have "(of_int p :: rat) < of_int (2 ^ nat ?a)" using pa(2) by (simp only: of_int_less_iff)
    then show ?thesis using a1 by (simp add: power_int_def)
  qed
  have Q1: "(power_int 2 (?b - 1) :: rat) \<le> of_int q"
  proof -
    have "(of_int (2 ^ nat (?b - 1)) :: rat) \<le> of_int q" using qb(1) by (simp only: of_int_le_iff)
    then show ?thesis using b1 by (simp add: power_int_def)
  qed
  have Q2: "(of_int q :: rat) < power_int 2 ?b"
  proof -
    have "(of_int q :: rat) < of_int (2 ^ nat ?b)" using qb(2) by (simp only: of_int_less_iff)
    then show ?thesis using b1 by (simp add: power_int_def)
  qed
  have qr: "(0::rat) < of_int q" using q by simp
  have upper: "\<bar>x\<bar> < power_int 2 (?k + 1)"
  proof -
    have "of_int p / of_int q < (power_int 2 ?a :: rat) / of_int q"
      using P2 qr by (simp add: divide_strict_right_mono)
    also have "\<dots> \<le> power_int 2 ?a / power_int 2 (?b - 1)"
      using Q1 qr by (intro divide_left_mono) (auto intro!: mult_pos_pos)
    also have "\<dots> = power_int 2 (?k + 1)"
      by (simp add: power_int_diff [symmetric] algebra_simps)
    finally show ?thesis by (simp add: x)
  qed
  have lower: "power_int 2 (?k - 1) \<le> \<bar>x\<bar>"
  proof -
    have "(power_int 2 (?k - 1) :: rat) = power_int 2 (?a - 1) / power_int 2 ?b"
      by (simp add: power_int_diff [symmetric] algebra_simps)
    also have "\<dots> \<le> of_int p / power_int 2 ?b"
      using P1 by (intro divide_right_mono) auto
    also have "\<dots> \<le> of_int p / of_int q"
      using Q2 qr p by (intro divide_left_mono) (auto intro!: mult_pos_pos)
    finally show ?thesis by (simp add: x)
  qed
  have be: "binexp x = (if pow2 ?k \<le> \<bar>x\<bar> then ?k else ?k - 1)"
    by (simp add: binexp_def pq)
  show ?thesis
  proof (cases "pow2 ?k \<le> \<bar>x\<bar>")
    case True
    with be upper show ?thesis by (simp add: pow2_powi)
  next
    case False
    with be lower show ?thesis by (simp add: pow2_powi)
  qed
qed

lemma roundEven_nearest: "\<bar>of_int (roundEven y) - y\<bar> \<le> 1 / 2"
proof -
  let ?f = "\<lfloor>y\<rfloor>"
  let ?d = "y - of_int ?f"
  have d: "0 \<le> ?d" "?d < 1" by linarith+
  consider "?d < 1 / 2" | "1 / 2 < ?d" | "?d = 1 / 2" by linarith
  then show ?thesis
  proof cases
    case 1
    then have "roundEven y = ?f" by (simp add: roundEven_def Let_def)
    with 1 d show ?thesis by simp
  next
    case 2
    then have "roundEven y = ?f + 1" by (simp add: roundEven_def Let_def)
    with 2 d show ?thesis by simp
  next
    case 3
    then have "roundEven y = ?f \<or> roundEven y = ?f + 1" by (simp add: roundEven_def Let_def)
    with 3 show ?thesis by auto
  qed
qed

lemma pow2_pos: "0 < pow2 e"
  by (simp add: pow2_def)

lemma pow2_half: "pow2 e / 2 = pow2 (e - 1)"
  by (simp add: pow2_powi power_int_diff)

text \<open>
  \<open>fl x\<close> is a multiple of the unit in the last place \<open>2^(e - 52)\<close>, where \<open>e\<close> is the
  binary exponent of \<open>x\<close>, and it is within half a unit of \<open>x\<close>: the nearest double.
\<close>

lemma fl_half_ulp:
  assumes "x \<noteq> 0"
  shows "\<bar>fl x - x\<bar> \<le> pow2 (binexp x - 53)"
proof -
  let ?u = "pow2 (binexp x - 52)"
  have u: "0 < ?u" by (rule pow2_pos)
  have "fl x - x = (of_int (roundEven (x / ?u)) - x / ?u) * ?u"
    using assms u by (simp add: fl_def Let_def field_simps)
  then have "\<bar>fl x - x\<bar> = \<bar>of_int (roundEven (x / ?u)) - x / ?u\<bar> * ?u"
    using u by (simp add: abs_mult)
  also have "\<dots> \<le> (1 / 2) * ?u"
    using roundEven_nearest [of "x / ?u"] u by (intro mult_right_mono) simp_all
  also have "\<dots> = pow2 (binexp x - 53)"
    using pow2_half [of "binexp x - 52"] by simp
  finally show ?thesis .
qed

text \<open>
  Doubles whose exact values are known: 0.1 is \<open>3602879701896397 / 2^55\<close>, 1/3 is
  \<open>6004799503160661 / 2^54\<close>, and \<open>2^53 + 1\<close> rounds to \<open>2^53\<close>.
\<close>

lemma fl_known_doubles:
  "fl (1 / 10) = 3602879701896397 / 36028797018963968"
  "fl (1 / 3) = 6004799503160661 / 18014398509481984"
  "fl (23 / 40) = 2589569785738035 / 4503599627370496"
  "fl (fl (23 / 40) * 100) = 8092405580431359 / 140737488355328"
  "fl (9007199254740993) = 9007199254740992"
  "fl (- (1 / 3)) = - (6004799503160661 / 18014398509481984)"
  by code_simp+

subsection \<open>Facts about the totals\<close>









lemma example_lists:
  "categories example_settings =
     [\<lparr>item_id = ''c1'', item_name = ''Be Safe''\<rparr>, \<lparr>item_id = ''c2'', item_name = ''On Task''\<rparr>]"
  "periods example_settings =
     [\<lparr>item_id = ''p1'', item_name = ''Arrival''\<rparr>, \<lparr>item_id = ''p2'', item_name = ''Dismissal''\<rparr>]"
  by (simp_all add: example_settings_def)

lemma example_cells_all:
  "cell example_record ''p1'' ''c1'' = Some (Some 3)"
  "cell example_record ''p1'' ''c2'' = Some (Some 2)"
  "cell example_record ''p2'' ''c1'' = Some None"
  "cell example_record ''p2'' ''c2'' = Some (Some 1)"
  by (simp_all add: cell_def example_record_def example_matrix_def)






lemma tie_lists:
  "categories tie_settings =
     [\<lparr>item_id = ''c1'', item_name = ''A''\<rparr>, \<lparr>item_id = ''c2'', item_name = ''B''\<rparr>,
      \<lparr>item_id = ''c3'', item_name = ''C''\<rparr>, \<lparr>item_id = ''c4'', item_name = ''D''\<rparr>]"
  "periods tie_settings = [\<lparr>item_id = ''p1'', item_name = ''Morning''\<rparr>]"
  by (simp_all add: tie_settings_def)

lemma tie_cells:
  "cell tie_record ''p1'' ''c1'' = Some (Some 10)"
  "cell tie_record ''p1'' ''c2'' = Some (Some 10)"
  "cell tie_record ''p1'' ''c3'' = Some (Some 3)"
  "cell tie_record ''p1'' ''c4'' = Some (Some 0)"
  "cell met_record ''p1'' ''c1'' = Some (Some 10)"
  "cell met_record ''p1'' ''c2'' = Some (Some 10)"
  "cell met_record ''p1'' ''c3'' = Some (Some 4)"
  "cell met_record ''p1'' ''c4'' = Some (Some 0)"
  by (simp_all add: cell_def tie_record_def met_record_def)

lemma tie_periodTotals:
  "spec_periodTotal tie_settings tie_record ''p1'' = 23"
  "spec_periodTotal tie_settings met_record ''p1'' = 24"
  by (simp_all add: spec_periodTotal_def tie_lists tie_cells)

lemma tie_periodMax: "spec_periodMax tie_settings 10 = 40"
  by (simp add: spec_periodMax_def tie_lists)

lemma tie_dailyTotals:
  "spec_dailyTotal tie_settings tie_record = 23"
  "spec_dailyTotal tie_settings met_record = 24"
  by (simp_all add: spec_dailyTotal_def tie_lists tie_periodTotals)

lemma tie_dailyMax: "spec_dailyMax tie_settings 10 = 40"
  by (simp add: spec_dailyMax_def tie_lists tie_periodMax)

lemmas tie_record_totals = tie_dailyTotals tie_dailyMax





lemma periodTotals_fst:
  "fst (foldl (\<lambda>(t, m) c. (addScore t (cell r pid (item_id c)), jsadd m mx)) (t0, m0) cs) =
     t0 + (\<Sum>c\<leftarrow>cs. case cell r pid (item_id c) of Some (Some v) \<Rightarrow> v | _ \<Rightarrow> 0)"
  by (induction cs arbitrary: t0 m0) (auto simp: addScore_def algebra_simps split: option.splits)

lemma totalsLoop_fst:
  "fst (foldl (totalsStep s r) (t0, m0, per0) ps) =
     t0 + (\<Sum>p\<leftarrow>ps. spec_periodTotal s r (item_id p))"
proof (induction ps arbitrary: t0 m0 per0)
  case Nil
  show ?case by simp
next
  case (Cons p ps)
  obtain t m where pt: "periodTotals s r (item_id p) = (t, m)"
    by (cases "periodTotals s r (item_id p)")
  have "t = fst (periodTotals s r (item_id p))"
    by (simp add: pt)
  then have t: "t = spec_periodTotal s r (item_id p)"
    by (simp add: periodTotals_def periodTotals_fst spec_periodTotal_def)
  have step: "totalsStep s r (t0, m0, per0) p = (t0 + t, jsadd m0 m, per0(item_id p \<mapsto> (t, m)))"
    by (simp add: totalsStep_def pt)
  show ?case
    unfolding foldl_Cons step Cons.IH by (simp add: t add.assoc)
qed

lemma totalPoints_eq: "totalPoints (computeTotals s r) = spec_dailyTotal s r"
proof -
  have "totalPoints (computeTotals s r) = fst (totalsLoop s r)"
    by (simp add: computeTotals_def split: prod.splits)
  then show ?thesis
    by (simp add: totalsLoop_def totalsLoop_fst spec_dailyTotal_def)
qed

text \<open>
  Claim C7. With an integer goal and ids that are not names inherited from
  \<open>Object.prototype\<close>, the goal is met exactly when the daily total is at least
  \<open>goalPoints\<close>; equality counts as met.
\<close>

theorem goalMet_iff:
  "plainIds s \<Longrightarrow> goalPoints s = Num g \<Longrightarrow> goalMet s r = (g \<le> spec_dailyTotal s r)"
  by (simp add: goalMet_def jsge_def totalPoints_eq)

lemma tie_goalPoints: "goalPoints tie_settings = Num 24"
  by (simp add: tie_settings_def)

lemma tie_plainIds: "plainIds tie_settings"
  by (simp add: plainIds_def inheritedName_def objectPrototypeNames_def tie_settings_def)

text \<open>With \<open>goalPoints = 24\<close>: a daily total of 24 meets the goal, 23 does not.\<close>

theorem goalMet_iff_witness:
  "plainIds tie_settings \<and> goalPoints tie_settings = Num 24 \<and>
   spec_dailyTotal tie_settings met_record = 24 \<and> goalMet tie_settings met_record \<and>
   spec_dailyTotal tie_settings tie_record = 23 \<and> \<not> goalMet tie_settings tie_record"
  using goalMet_iff [OF tie_plainIds tie_goalPoints, of met_record]
    goalMet_iff [OF tie_plainIds tie_goalPoints, of tie_record]
  by (simp add: tie_goalPoints tie_record_totals tie_plainIds)

subsection \<open>Facts about the roster and the number inputs\<close>

text \<open>
  Claim C9. When the removal of the selected student is confirmed, the new selection is
  the id of the first student of the roster before the removal (none for an empty
  roster). So if the removed student was the first one, the selection stays the removed
  student's id, which is no longer in the roster; if another student was removed, the
  selection is the first student, who is still the first of the new roster.
\<close>

theorem removeStudent_selects_old_first:
  assumes "studentId st = Some i"
  shows "students (removeStudent True i st) = filter (\<lambda>s. item_id s \<noteq> i) (students st) \<and>
         studentId (removeStudent True i st) =
           (case students st of [] \<Rightarrow> None | s # _ \<Rightarrow> Some (item_id s)) \<and>
         (\<forall>s rest. students st = s # rest \<and> item_id s = i \<longrightarrow>
            studentId (removeStudent True i st) = Some i \<and>
            i \<notin> item_id ` set (students (removeStudent True i st))) \<and>
         (\<forall>s rest. students st = s # rest \<and> item_id s \<noteq> i \<longrightarrow>
            studentId (removeStudent True i st) = Some (item_id s) \<and>
            students (removeStudent True i st) = s # filter (\<lambda>s. item_id s \<noteq> i) rest)"
  using assms by (auto simp: removeStudent_def)

lemma roster_students:
  "students roster_state =
     [\<lparr>item_id = ''s1'', item_name = ''Seth Example''\<rparr>, \<lparr>item_id = ''s2'', item_name = ''Ada''\<rparr>]"
  "studentId roster_state = Some ''s1''"
  "students (roster_state\<lparr>studentId := Some ''s2''\<rparr>) =
     [\<lparr>item_id = ''s1'', item_name = ''Seth Example''\<rparr>, \<lparr>item_id = ''s2'', item_name = ''Ada''\<rparr>]"
  "studentId (roster_state\<lparr>studentId := Some ''s2''\<rparr>) = Some ''s2''"
  by (simp_all add: roster_state_def example_state_def)

text \<open>
  On a roster of s1 and s2: removing the selected s1 leaves the selection on s1 with
  only s2 in the roster; removing the selected s2 selects s1.
\<close>

theorem removeStudent_selects_old_first_witness:
  "studentId roster_state = Some ''s1'' \<and>
   studentId (removeStudent True ''s1'' roster_state) = Some ''s1'' \<and>
   students (removeStudent True ''s1'' roster_state) = [\<lparr>item_id = ''s2'', item_name = ''Ada''\<rparr>] \<and>
   studentId (removeStudent True ''s2'' (roster_state\<lparr>studentId := Some ''s2''\<rparr>)) = Some ''s1'' \<and>
   students (removeStudent True ''s2'' (roster_state\<lparr>studentId := Some ''s2''\<rparr>)) =
     [\<lparr>item_id = ''s1'', item_name = ''Seth Example''\<rparr>]"
  using removeStudent_selects_old_first [of roster_state "''s1''"]
        removeStudent_selects_old_first [of "roster_state\<lparr>studentId := Some ''s2''\<rparr>" "''s2''"]
  by (simp add: roster_students)

lemma removeStudent_declined: "removeStudent False i st = st"
  by (simp add: removeStudent_def)

lemma parseInt_dot5: "parseInt ''.5'' = NaN"
  by (simp add: parseInt_def isWhiteSpace_def isDigit_def)

text \<open>
  Claim C10 says that after every edit \<open>goalPoints\<close> is an integer in \<open>[0, 999]\<close> and
  \<open>scaleMax\<close> an integer in \<open>[1, 10]\<close>. The code at the input \<open>''.5''\<close>, a value a
  number input can hold: \<open>parseInt\<close> finds no digit, \<open>clamp\<close> passes \<open>NaN\<close> on, and
  \<open>NaN\<close> is stored in both fields.
\<close>

theorem edit_stores_NaN:
  "goalPoints (settings (editGoalPoints ''.5'' example_state)) = NaN \<and>
   scaleMax (settings (editScaleMax ''.5'' example_state)) = NaN"
  by (simp add: editGoalPoints_def editScaleMax_def clamp_def parseInt_dot5)

text \<open>When \<open>parseInt\<close> finds an integer the stored values are in the two ranges.\<close>

lemma edit_in_range_when_parsed:
  assumes "parseInt (if v = [] then ''0'' else v) = Num n"
  shows "\<exists>g. goalPoints (settings (editGoalPoints v st)) = Num g \<and> 0 \<le> g \<and> g \<le> 999"
    and "\<exists>m. scaleMax (settings (editScaleMax v st)) = Num m \<and> 1 \<le> m \<and> m \<le> 10"
  using assms by (simp_all add: editGoalPoints_def editScaleMax_def clamp_def)

subsection \<open>Facts about invariant R2\<close>





lemma freshRow_fold:
  "foldl (\<lambda>row c. row(item_id c \<mapsto> None)) row0 cats c = Some (Some v) \<Longrightarrow>
     row0 c = Some (Some v)"
proof (induction cats arbitrary: row0)
  case Nil
  then show ?case by simp
next
  case (Cons a cats)
  from Cons.prems
  have "foldl (\<lambda>row c. row(item_id c \<mapsto> None)) (row0(item_id a \<mapsto> None)) cats c = Some (Some v)"
    by (simp only: foldl_Cons)
  from Cons.IH [OF this] show ?case
    by (simp split: if_splits)
qed

lemma freshRow_unset: "freshRow cats c \<noteq> Some (Some v)"
  using freshRow_fold [of Map.empty cats c v] by (auto simp: freshRow_def)

lemma freshMatrix_fold:
  "foldl (\<lambda>m p. m(item_id p \<mapsto> freshRow cats)) m0 ps p = Some row \<Longrightarrow>
     row = freshRow cats \<or> m0 p = Some row"
proof (induction ps arbitrary: m0)
  case Nil
  then show ?case by simp
next
  case (Cons a ps)
  from Cons.prems
  have "foldl (\<lambda>m p. m(item_id p \<mapsto> freshRow cats)) (m0(item_id a \<mapsto> freshRow cats)) ps p = Some row"
    by (simp only: foldl_Cons)
  from Cons.IH [OF this] show ?case
    by (auto split: if_splits)
qed












subsection \<open>Facts about the settings export and import\<close>

lemma stringify_item: "stringifyValue (itemJS x) = itemJS x"
  by (simp add: itemJS_def)

lemma stringify_items: "map stringifyValue (map itemJS xs) = map itemJS xs"
  by (induction xs) (simp_all add: stringify_item)

lemma stringify_labels:
  "map (\<lambda>(k, v). (k, stringifyValue v)) (map (\<lambda>(k, l). (k, JStr l)) ls) = map (\<lambda>(k, l). (k, JStr l)) ls"
  by (induction ls) auto

lemma stringify_num: "n \<noteq> NaN \<Longrightarrow> stringifyValue (JNum n) = JNum n"
  by (cases n) simp_all

lemma stringify_settings:
  "scaleMax s \<noteq> NaN \<Longrightarrow> goalPoints s \<noteq> NaN \<Longrightarrow> stringifyValue (settingsJS s) = settingsJS s"
  by (auto simp: settingsJS_def stringify_item stringify_num)

lemma settingsJS_props:
  "getProp ''periods'' (settingsJS s) = Some (JArr (map itemJS (periods s)))"
  "getProp ''categories'' (settingsJS s) = Some (JArr (map itemJS (categories s)))"
  by (simp_all add: getProp_def settingsJS_def)

lemma item_key: "toPropertyKey (getProp ''id'' (itemJS x)) = item_id x"
  by (simp add: toPropertyKey_def getProp_def itemJS_def)

lemma item_not_null: "itemJS x \<noteq> JNull"
  by (simp add: itemJS_def)

lemma importRow_items:
  "importRow (map itemJS cs) row = Inr (foldl (\<lambda>row c. row(item_id c \<mapsto> None)) row cs)"
  by (induction cs arbitrary: row) (simp_all add: item_key item_not_null)

lemma importMatrix_items:
  "importMatrix (settingsJS s) (map itemJS ps) m =
     Inr (foldl (\<lambda>m p. m(item_id p \<mapsto> freshRow (categories s))) m ps)"
  by (induction ps arbitrary: m)
     (simp_all add: item_key item_not_null settingsJS_props arrayOf_def importRow_items freshRow_def)

lemma importEntries_settings:
  "importEntries (settingsJS s) k prev =
     Inr (prev(k \<mapsto> (case prev k of None \<Rightarrow> emptyRecord | Some r \<Rightarrow> r)\<lparr>matrix := freshMatrix s\<rparr>))"
  by (simp add: importEntries_def settingsJS_props arrayOf_def importMatrix_items freshMatrix_def)

lemma settingsJS_object: "truthy (settingsJS s)" "typeofObject (settingsJS s)"
  by (simp_all add: truthy_def typeofObject_def settingsJS_def)

lemma import_exported:
  assumes "scaleMax (settings st) \<noteq> NaN" and "goalPoints (settings st) \<noteq> NaN"
  shows "importSettingsJSON (exportSettingsJSON (jsState st)) st0 =
     Imported (st0\<lparr>settings := settingsJS (settings st),
       entries := (entries st0)(key st0 \<mapsto>
         (case entries st0 (key st0) of None \<Rightarrow> emptyRecord | Some r \<Rightarrow> r)
           \<lparr>matrix := freshMatrix (settings st)\<rparr>)\<rparr>)"
proof -
  have "exportSettingsJSON (jsState st) = Some (settingsJS (settings st))"
    using assms by (simp add: exportSettingsJSON_def JSON_stringify_def jsState_def stringify_settings)
  then show ?thesis
    by (simp add: importSettingsJSON_def JSON_parse_def settingsJS_object importEntries_settings)
qed

lemma itemJS_inj: "itemJS x = itemJS y \<Longrightarrow> x = (y :: item)"
  by (simp add: itemJS_def)

lemma items_inj: "map itemJS xs = map itemJS ys \<Longrightarrow> xs = (ys :: item list)"
proof (induction xs arbitrary: ys)
  case Nil
  then show ?case by simp
next
  case (Cons x xs)
  then obtain y ys' where ys: "ys = y # ys'" by (cases ys) auto
  with Cons.prems have "itemJS x = itemJS y" and "map itemJS xs = map itemJS ys'" by simp_all
  with Cons.IH ys show ?case by (simp add: itemJS_inj)
qed

lemma labels_inj:
  "map (\<lambda>(k, l). (k, JStr l)) xs = map (\<lambda>(k, l). (k, JStr l)) ys \<Longrightarrow> xs = (ys :: (string \<times> string) list)"
proof (induction xs arbitrary: ys)
  case Nil
  then show ?case by simp
next
  case (Cons x xs)
  then obtain y ys' where ys: "ys = y # ys'" by (cases ys) auto
  with Cons.prems Cons.IH show ?case by (cases x, cases y) auto
qed

lemma settingsJS_inj: "settingsJS s = settingsJS s' \<Longrightarrow> s = (s' :: settings)"
  by (cases s, cases s') (auto simp: settingsJS_def dest: items_inj labels_inj)

text \<open>
  Claim C8. For settings whose \<open>scaleMax\<close> and \<open>goalPoints\<close> are integers (every valid
  Settings value), importing the exported file, into any state, succeeds and stores a
  settings value equal to the exported one; it is the value of the original settings
  and of no other.
\<close>

theorem settings_export_import_roundtrip:
  assumes "scaleMax (settings st) \<noteq> NaN" and "goalPoints (settings st) \<noteq> NaN"
  shows "\<exists>st'. importSettingsJSON (exportSettingsJSON (jsState st)) st0 = Imported st' \<and>
           settings st' = settingsJS (settings st) \<and>
           (\<forall>s. settings st' = settingsJS s \<longleftrightarrow> s = settings st)"
  using import_exported [OF assms, of st0] by (auto dest: settingsJS_inj)

lemma jsState_fields:
  "key (jsState st) = key st" "entries (jsState st) = entries st"
  "settings (jsState st) = settingsJS (settings st)"
  by (simp_all add: jsState_def key_def)

lemma example_representable:
  "scaleMax (settings example_state) \<noteq> NaN" "goalPoints (settings example_state) \<noteq> NaN"
  by (simp_all add: example_state_def example_settings_def)

lemma example_state_settings: "settings example_state = example_settings"
  by (simp add: example_state_def)

text \<open>The round trip of the running example's settings.\<close>

theorem settings_export_import_roundtrip_witness:
  "scaleMax (settings example_state) \<noteq> NaN \<and> goalPoints (settings example_state) \<noteq> NaN \<and>
   (\<exists>st'. importSettingsJSON (exportSettingsJSON (jsState example_state)) (jsState example_state) =
           Imported st' \<and> settings st' = settingsJS example_settings)"
  using settings_export_import_roundtrip [OF example_representable, of "jsState example_state"]
    example_representable
  by (auto simp: example_state_settings)

text \<open>
  What the guard rejects: a text that does not parse, and a parsed value that is falsy or
  not of type object. An object without \<open>periods\<close> passes the guard and fails later.
\<close>

lemma import_rejects:
  "importSettingsJSON None st = Alerted st"
  "\<not> truthy v \<or> \<not> typeofObject v \<Longrightarrow> importSettingsJSON (Some v) st = Alerted st"
  by (auto simp: importSettingsJSON_def JSON_parse_def)

lemma import_empty_object: "importSettingsJSON (Some (JObj [])) st = RenderFailed (JObj [])"
  by (simp add: importSettingsJSON_def JSON_parse_def truthy_def typeofObject_def
        importEntries_def arrayOf_def getProp_def)

lemma example_fresh_cell:
  "cell (example_record\<lparr>matrix := freshMatrix example_settings\<rparr>) ''p1'' ''c1'' = Some None"
  by (simp add: cell_def freshMatrix_def freshRow_def example_lists)

text \<open>
  Claim C2 says that a successful import keeps every scored cell of the active record.
  The code on the running example, importing the file it has just exported: the import
  succeeds, and the cell p1/c1, which held 3, holds \<open>null\<close>.
\<close>

theorem import_rebuilds_matrix_unset:
  "\<exists>st' r'. importSettingsJSON (exportSettingsJSON (jsState example_state)) (jsState example_state) =
             Imported st' \<and>
           entries (jsState example_state) (key (jsState example_state)) = Some example_record \<and>
           cell example_record ''p1'' ''c1'' = Some (Some 3) \<and>
           entries st' (key (jsState example_state)) = Some r' \<and>
           cell r' ''p1'' ''c1'' = Some None"
  by (simp add: import_exported [OF example_representable] jsState_fields example_entry
        example_state_settings example_fresh_cell example_cells_all)

text \<open>The import of the running example's own export succeeds and leaves p1/c1 unset.\<close>

theorem import_rebuilds_matrix_unset_witness:
  "(\<exists>st'. importSettingsJSON (exportSettingsJSON (jsState example_state)) (jsState example_state) =
          Imported st') \<and>
   (\<exists>r'. cell example_record ''p1'' ''c1'' = Some (Some 3) \<and> cell r' ''p1'' ''c1'' = Some None)"
  using import_rebuilds_matrix_unset by blast

text \<open>
  Claim C1 as stated fails: it says that a payload without the shape \<open>{categories,
  periods, scale, goalPoints}\<close> is refused with the state unchanged. For a payload that
  has neither a scale nor a goal the import succeeds, the settings are replaced by the
  payload and the matrix of the active record is emptied.
\<close>

theorem import_accepts_lacking_payload_counterexample:
  "importSettingsJSON (Some lacking_payload) (jsState example_state) =
     Imported ((jsState example_state)\<lparr>settings := lacking_payload,
       entries := (entries example_state)(key example_state \<mapsto> example_record\<lparr>matrix := Map.empty\<rparr>)\<rparr>) \<and>
   getProp ''scale'' lacking_payload = None \<and> getProp ''scaleMax'' lacking_payload = None \<and>
   getProp ''goalPoints'' lacking_payload = None \<and>
   settings (jsState example_state) \<noteq> lacking_payload"
  by (simp add: importSettingsJSON_def JSON_parse_def truthy_def typeofObject_def
        importEntries_def arrayOf_def getProp_def lacking_payload_def jsState_fields example_entry
        settingsJS_def)

text \<open>
  Claim C1 (as amended). The import shows the alert and leaves the whole state unchanged
  for a file that does not parse, and for a file that parses to a value that is falsy or
  not of type object.
\<close>

theorem import_guard_rejects_non_objects:
  "importSettingsJSON None st = Alerted st \<and>
   (\<not> truthy v \<or> \<not> typeofObject v \<longrightarrow> importSettingsJSON (Some v) st = Alerted st)"
proof (intro conjI impI)
  show "importSettingsJSON None st = Alerted st"
    by (rule import_rejects(1))
next
  assume "\<not> truthy v \<or> \<not> typeofObject v"
  then show "importSettingsJSON (Some v) st = Alerted st"
    by (rule import_rejects(2))
qed

text \<open>
  Refused with the alert, on the running example: an unparsable file, \<open>null\<close>, the number
  0, a string, a number.
\<close>

theorem import_guard_rejects_non_objects_witness:
  "importSettingsJSON None (jsState example_state) = Alerted (jsState example_state) \<and>
   \<not> truthy JNull \<and>
   importSettingsJSON (Some JNull) (jsState example_state) = Alerted (jsState example_state) \<and>
   \<not> truthy (JNum (Num 0)) \<and>
   importSettingsJSON (Some (JNum (Num 0))) (jsState example_state) = Alerted (jsState example_state) \<and>
   \<not> typeofObject (JStr ''abc'') \<and>
   importSettingsJSON (Some (JStr ''abc'')) (jsState example_state) = Alerted (jsState example_state) \<and>
   \<not> typeofObject (JNum (Num 5)) \<and>
   importSettingsJSON (Some (JNum (Num 5))) (jsState example_state) = Alerted (jsState example_state)"
proof -
  have g: "\<not> truthy JNull" "\<not> truthy (JNum (Num 0))"
    "\<not> typeofObject (JStr ''abc'')" "\<not> typeofObject (JNum (Num 5))"
    by (simp_all add: truthy_def typeofObject_def)
  have 1: "importSettingsJSON None (jsState example_state) = Alerted (jsState example_state)"
    using import_guard_rejects_non_objects [of "jsState example_state" JNull]
    by simp
  have 2: "importSettingsJSON (Some JNull) (jsState example_state) = Alerted (jsState example_state)"
    using import_guard_rejects_non_objects [of "jsState example_state" JNull] g(1)
    by simp
  have 3: "importSettingsJSON (Some (JNum (Num 0))) (jsState example_state) = Alerted (jsState example_state)"
    using import_guard_rejects_non_objects [of "jsState example_state" "JNum (Num 0)"] g(2)
    by simp
  have 4: "importSettingsJSON (Some (JStr ''abc'')) (jsState example_state) = Alerted (jsState example_state)"
    using import_guard_rejects_non_objects [of "jsState example_state" "JStr ''abc''"] g(3)
    by simp
  have 5: "importSettingsJSON (Some (JNum (Num 5))) (jsState example_state) = Alerted (jsState example_state)"
    using import_guard_rejects_non_objects [of "jsState example_state" "JNum (Num 5)"] g(4)
    by simp
  from g 1 2 3 4 5 show ?thesis by simp
qed

text \<open>After the import of an exported file no cell of the active record holds a score.\<close>

lemma cell_freshMatrix: "cell (r\<lparr>matrix := freshMatrix s\<rparr>) p c \<noteq> Some (Some v)"
proof (cases "freshMatrix s p")
  case None
  then show ?thesis by (simp add: cell_def)
next
  case (Some row)
  then have "row = freshRow (categories s)"
    using freshMatrix_fold [of "categories s" Map.empty "periods s" p row]
    by (simp add: freshMatrix_def)
  with Some show ?thesis
    by (simp add: cell_def freshRow_unset)
qed

lemma import_exported_unsets_every_cell:
  assumes "scaleMax (settings st) \<noteq> NaN" and "goalPoints (settings st) \<noteq> NaN"
  shows "\<exists>st' r'. importSettingsJSON (exportSettingsJSON (jsState st)) st0 = Imported st' \<and>
           entries st' (key st0) = Some r' \<and> (\<forall>p c v. cell r' p c \<noteq> Some (Some v))"
  by (simp add: import_exported [OF assms] cell_freshMatrix)

subsection \<open>Invariant R2 and the operations of the component\<close>






















end
